theory Spec2Isabelle
  imports Main "HOL-Library.Word"
begin

section \<open>The process environment and the listen port (main.go, lines 14-19 and 33)\<close>

text \<open>
  The environment is a finite table of variables. Go's \<^verbatim>\<open>os.Getenv\<close> returns the empty
  string both for a variable that is unset and for one that is set to the empty string.
\<close>

type_synonym environ = "string \<rightharpoonup> string"

definition Getenv :: "environ \<Rightarrow> string \<Rightarrow> string" where
  "Getenv env k = (case env k of None \<Rightarrow> [] | Some v \<Rightarrow> v)"

text \<open>
  \<^verbatim>\<open>port := "8080"; if fromEnv := os.Getenv("PORT"); fromEnv != "" { port = fromEnv }\<close>
\<close>

definition port :: "environ \<Rightarrow> string" where
  "port env = (let fromEnv = Getenv env ''PORT'' in if fromEnv \<noteq> [] then fromEnv else ''8080'')"

text \<open>The address handed to \<^verbatim>\<open>http.ListenAndServe\<close>: \<^verbatim>\<open>":" + port\<close>.\<close>

definition listen_addr :: "environ \<Rightarrow> string" where
  "listen_addr env = '':'' @ port env"

section \<open>The listen port\<close>

text \<open>
  C7. The listen port is selected by the PORT environment variable: when PORT is unset or
  set to the empty string the port is 8080, and every non-empty value of PORT is the port;
  the server is started on the address made of a colon and that port.
\<close>

theorem port_selected_by_PORT:
  "(env ''PORT'' = None \<or> env ''PORT'' = Some [] \<longrightarrow>
      port env = ''8080'' \<and> listen_addr env = '':8080'') \<and>
   (\<forall>v. env ''PORT'' = Some v \<and> v \<noteq> [] \<longrightarrow> port env = v \<and> listen_addr env = '':'' @ v)"
  by (auto simp: port_def listen_addr_def Getenv_def)

theorem port_selected_by_PORT_witness:
  "port Map.empty = ''8080'' \<and> listen_addr Map.empty = '':8080'' \<and>
   port [''PORT'' \<mapsto> []] = ''8080'' \<and>
   port [''PORT'' \<mapsto> ''3000''] = ''3000'' \<and>
   listen_addr [''PORT'' \<mapsto> ''3000''] = '':3000''"
  using port_selected_by_PORT [of Map.empty]
    port_selected_by_PORT [of "[''PORT'' \<mapsto> []]"]
    port_selected_by_PORT [of "[''PORT'' \<mapsto> ''3000'']"]
  by simp

end
